theory Spec2Isabelle
  imports Main "HOL-Library.Word" "HOL-Library.Char_ord" "HOL-Library.List_Lexorder"
begin

unbundle bit_operations_syntax

section \<open>Value types: block references and blocks\<close>

text \<open>
  Modelled from the spec: the declaration of \<open>BlockRef\<close>, \<open>NewBlockRef\<close> and
  \<open>BlockRefEmpty\<close> (package bstream) is not among the source files; section 3 of the
  specification gives a reference as the pair of an id and an unsigned 64-bit height.
  \<open>BlockRefEmpty\<close> is the reference with no id and height 0.
\<close>

record BlockRef =
  ID :: string
  Num :: "64 word"

definition NewBlockRef :: "string \<Rightarrow> 64 word \<Rightarrow> BlockRef" where
  "NewBlockRef i n = \<lparr>ID = i, Num = n\<rparr>"

definition BlockRefEmpty :: BlockRef where
  "BlockRefEmpty = \<lparr>ID = [], Num = 0\<rparr>"

text \<open>
  The struct \<open>Block\<close> of block.go. The timestamp and the payload fields are left out:
  no function modelled here reads them.
\<close>

record Block =
  Id' :: string
  Number :: "64 word"
  PreviousId :: string
  LibNum :: "64 word"

text \<open>
  \<open>Block.PreviousRef\<close> (block.go). The receiver is a pointer, so the model takes a
  \<open>Block option\<close> with \<open>None\<close> for the nil receiver. The subtraction is the unsigned
  64-bit one of the source.
\<close>

definition PreviousRef :: "Block option \<Rightarrow> BlockRef" where
  "PreviousRef b =
     (case b of
        None \<Rightarrow> BlockRefEmpty
      | Some blk \<Rightarrow>
          if Number blk = 0 \<or> PreviousId blk = [] then BlockRefEmpty
          else NewBlockRef (PreviousId blk) (Number blk - 1))"

definition AsRef :: "Block option \<Rightarrow> BlockRef" where
  "AsRef b = (case b of None \<Rightarrow> BlockRefEmpty | Some blk \<Rightarrow> NewBlockRef (Id' blk) (Number blk))"


section \<open>Firehose: stop block and stream construction\<close>

text \<open>
  Errors are values. \<open>ErrStopBlockReached\<close> and \<open>ErrInvalidArg\<close> are the errors of
  package firehose, \<open>ErrGetterUndefined\<close> the one of package bstream that
  \<open>resolveNegativeStartBlockNum\<close> tests for, \<open>Errorf\<close> is \<open>fmt.Errorf\<close> with a
  wrapped cause (\<open>%w\<close>), \<open>ErrOther\<close> stands for any other error a collaborator
  returns, and \<open>Panic\<close> is a run-time panic.
\<close>

datatype invalid_arg =
    StartAfterStop "64 word" "64 word"
  | NegativeStartNoHeadTracker "64 word"

datatype err =
    ErrStopBlockReached
  | ErrInvalidArg invalid_arg
  | ErrGetterUndefined
  | ErrOther string
  | Errorf string err
  | Panic string

text \<open>\<open>errors.Is\<close>: the error itself or one of the causes it wraps.\<close>

fun errors_Is :: "err \<Rightarrow> err \<Rightarrow> bool" where
  "errors_Is (Errorf m e) t = (Errorf m e = t \<or> errors_Is e t)"
| "errors_Is e t = (e = t)"

text \<open>
  A handler is a Go closure with effects. The model passes the state of the handler
  explicitly: it takes the block, the object and the state, and returns the error
  (\<open>None\<close> for nil) with the new state.
\<close>

type_synonym ('o, 's) Handler = "Block \<Rightarrow> 'o \<Rightarrow> 's \<Rightarrow> err option \<times> 's"

datatype StepType = StepNew | StepUndo | StepRedo | StepIrreversible | StepStalled

record Cursor =
  Step :: StepType
  Block :: BlockRef
  HeadBlock :: BlockRef
  LIB :: BlockRef

text \<open>
  The fields of \<open>Firehose\<close> that \<open>createSource\<close> and \<open>wrappedHandler\<close> read.
  \<open>startBlockNum\<close> is an int64: a 64-bit word read with \<open>sint\<close>. The stores are
  kept as the flags the code tests (nil or not); \<open>'t\<close> is the tracker.
\<close>

record ('o, 's, 't) Firehose =
  FirstStreamableBlock :: "64 word"
  startBlockNum :: "64 word"
  stopBlockNum :: "64 word"
  hasIrreversibleBlocksIndexStore :: bool
  handler :: "('o, 's) Handler"
  cursor :: "Cursor option"
  tracker :: "'t option"

text \<open>
  \<open>Firehose.wrappedHandler\<close>: with a stop block, a block above it is refused before
  the inner handler runs; otherwise the inner handler runs, its error is returned if it
  has one, and the stop block itself ends the stream after it was handled.
\<close>

definition wrappedHandler :: "('o, 's, 't) Firehose \<Rightarrow> ('o, 's) Handler" where
  "wrappedHandler f =
     (if stopBlockNum f > 0 then
        (\<lambda>blk obj s.
           if Number blk > stopBlockNum f then (Some ErrStopBlockReached, s)
           else
             (case handler f blk obj s of
                (Some e, s') \<Rightarrow> (Some e, s')
              | (None, s') \<Rightarrow>
                  if Number blk = stopBlockNum f then (Some ErrStopBlockReached, s')
                  else (None, s')))
      else handler f)"

text \<open>
  The collaborators of \<open>createSource\<close> that are not among the source files are taken
  as parameters: the two tracker methods (\<open>GetRelativeBlock\<close> receives the tracker
  pointer as it is, nil included), \<open>Cursor.IsEmpty\<close>, and whether
  \<open>NewBlockIndexesManager\<close> returns an index (its arguments are the start block of
  the index, the stop block and the cursor block). A cursor that \<open>IsEmpty\<close> reports
  as present while the pointer is nil is dereferenced by the source: a panic.
\<close>

record 't Collaborators =
  GetRelativeBlock :: "'t option \<Rightarrow> 64 word \<Rightarrow> err + 64 word"
  ResolveStartBlock :: "'t \<Rightarrow> 64 word \<Rightarrow> err + (64 word \<times> string)"
  IsEmpty :: "Cursor option \<Rightarrow> bool"
  NewBlockIndexesManager :: "64 word \<Rightarrow> 64 word \<Rightarrow> BlockRef option \<Rightarrow> bool"

text \<open>\<open>resolveNegativeStartBlockNum\<close>.\<close>

definition resolveNegativeStartBlockNum ::
  "'t Collaborators \<Rightarrow> 64 word \<Rightarrow> 't option \<Rightarrow> err + 64 word" where
  "resolveNegativeStartBlockNum c start trk =
     (if sint start < 0 then
        (case GetRelativeBlock c trk start of
           Inl e \<Rightarrow>
             if errors_Is e ErrGetterUndefined
             then Inl (ErrInvalidArg (NegativeStartNoHeadTracker start))
             else Inl (Errorf ''getting relative block'' e)
         | Inr absoluteValue \<Rightarrow> Inr absoluteValue)
      else Inr start)"

text \<open>
  The sources \<open>createSource\<close> can return, named after the constructor called and
  holding the block numbers and ids it is given.
\<close>

datatype Source =
    IndexedFileSource
  | JoiningSourceFromCursor "64 word" Cursor
  | JoiningSourceFromResolvedBlock "64 word" "64 word" string "BlockRef option"
  | JoiningSource "64 word"

definition createSource ::
  "'t Collaborators \<Rightarrow> ('o, 's, 't) Firehose \<Rightarrow> err + Source" where
  "createSource c f =
     (case resolveNegativeStartBlockNum c (startBlockNum f) (tracker f) of
        Inl e \<Rightarrow> Inl e
      | Inr resolved \<Rightarrow>
          let absoluteStartBlockNum =
                (if resolved < FirstStreamableBlock f then FirstStreamableBlock f else resolved)
          in
          if stopBlockNum f > 0 \<and> absoluteStartBlockNum > stopBlockNum f
          then Inl (ErrInvalidArg (StartAfterStop absoluteStartBlockNum (stopBlockNum f)))
          else
            let hasCursor = \<not> IsEmpty c (cursor f) in
            (case (hasCursor, cursor f) of
               (True, None) \<Rightarrow> Inl (Panic ''nil pointer dereference'')
             | (True, Some cur) \<Rightarrow>
                 let forkedCursor = (Step cur \<noteq> StepNew \<and> Step cur \<noteq> StepIrreversible) in
                 if hasIrreversibleBlocksIndexStore f \<and> \<not> forkedCursor \<and>
                    NewBlockIndexesManager c (Num (LIB cur)) (stopBlockNum f) (Some (Block cur))
                 then Inr IndexedFileSource
                 else Inr (JoiningSourceFromCursor (Num (Block cur)) cur)
             | (False, _) \<Rightarrow>
                 if hasIrreversibleBlocksIndexStore f \<and>
                    NewBlockIndexesManager c absoluteStartBlockNum (stopBlockNum f) None
                 then Inr IndexedFileSource
                 else
                   (case tracker f of
                      Some trk \<Rightarrow>
                        (case ResolveStartBlock c trk absoluteStartBlockNum of
                           Inl e \<Rightarrow> Inl (Errorf ''failed to resolve start block'' e)
                         | Inr (irrStart, previousIrreversibleID) \<Rightarrow>
                             Inr (JoiningSourceFromResolvedBlock absoluteStartBlockNum irrStart
                                    previousIrreversibleID
                                    (if previousIrreversibleID \<noteq> []
                                     then Some (NewBlockRef previousIrreversibleID irrStart)
                                     else None)))
                    | None \<Rightarrow> Inr (JoiningSource absoluteStartBlockNum))))"

definition isInvalidArg :: "err + Source \<Rightarrow> bool" where
  "isInvalidArg r = (case r of Inl (ErrInvalidArg m) \<Rightarrow> True | _ \<Rightarrow> False)"


section \<open>Chains of the block tree (forkdb tree add-ons)\<close>

text \<open>
  \<open>ChainList.LongestChain\<close>. The loop keeps the index of the first chain that is
  strictly longer than every chain before it; \<open>longestID\<close> starts at \<open>-1\<close>. With at
  least one chain the source indexes \<open>l.Chains[longestID]\<close>, which panics when
  \<open>longestID\<close> is still \<open>-1\<close> (every chain empty); with no chain it returns nil,
  the empty list.
\<close>

type_synonym ChainList = "string list list"

fun LongestChain_loop :: "ChainList \<Rightarrow> nat \<Rightarrow> int \<Rightarrow> nat \<Rightarrow> int \<times> nat" where
  "LongestChain_loop [] i longestID longestLen = (longestID, longestLen)"
| "LongestChain_loop (chain # rest) i longestID longestLen =
     (if length chain > longestLen
      then LongestChain_loop rest (Suc i) (int i) (length chain)
      else LongestChain_loop rest (Suc i) longestID longestLen)"

definition LongestChain :: "ChainList \<Rightarrow> err + string list" where
  "LongestChain cl =
     (case LongestChain_loop cl 0 (- 1) 0 of
        (longestID, longestLen) \<Rightarrow>
          if length cl > 0 then
            (if 0 \<le> longestID \<and> nat longestID < length cl
             then Inr (cl ! nat longestID)
             else Inl (Panic ''index out of range''))
          else Inr [])"

text \<open>
  The invariant of the loop of \<open>LongestChain\<close> after \<open>n\<close> chains: either no chain
  so far has an element, or \<open>longestID\<close> is the first index among them of a chain of
  the greatest length \<open>longestLen\<close>.
\<close>

definition LongestChain_inv :: "ChainList \<Rightarrow> nat \<Rightarrow> int \<Rightarrow> nat \<Rightarrow> bool" where
  "LongestChain_inv cl n longestID longestLen \<longleftrightarrow>
     (longestID = - 1 \<and> longestLen = 0 \<and> (\<forall>j<n. length (cl ! j) = 0)) \<or>
     (0 \<le> longestID \<and> nat longestID < n \<and> length (cl ! nat longestID) = longestLen \<and>
      0 < longestLen \<and>
      (\<forall>j<n. length (cl ! j) \<le> longestLen) \<and>
      (\<forall>j<nat longestID. length (cl ! j) < longestLen))"

text \<open>
  \<open>db.links\<close> is a Go map from block id to previous id. The model keeps it as an
  association list in the order in which the links were recorded, so that "seen first"
  can be said at all; the functions below read it only through a sort, as the source
  does after ranging over the map.
\<close>

type_synonym links = "(string \<times> string) list"

text \<open>\<open>ForkDB.findChildren\<close>: the ids whose previous id is \<open>parentID\<close>, sorted
  (\<open>sort.Strings\<close>: byte-wise lexicographic order).\<close>

definition findChildren :: "links \<Rightarrow> string \<Rightarrow> string list" where
  "findChildren ls parentID = sort (map fst (filter (\<lambda>(i, prevID). prevID = parentID) ls))"

definition roots :: "links \<Rightarrow> string list" where
  "roots ls = sort (map fst (filter (\<lambda>(blockID, prevID). map_of ls prevID = None) ls))"

definition root :: "links \<Rightarrow> err + string" where
  "root ls =
     (if length ls = 0 then Inl (ErrOther ''no link'')
      else if length (roots ls) > 1 then Inl (ErrOther ''multiple root found'')
      else (case roots ls of
              [] \<Rightarrow> Inl (Panic ''index out of range'')
            | r # rest \<Rightarrow> Inr r))"

datatype Node = Node (node_id: string) (children: "Node list")

text \<open>
  \<open>Node.growBranches\<close> recurses through the children found in the links and does not
  return when the links have a cycle. The model takes fuel, one unit per level of the
  tree, and \<open>None\<close> says that the fuel ran out.
\<close>

fun growBranches :: "nat \<Rightarrow> links \<Rightarrow> string \<Rightarrow> Node option" where
  "growBranches 0 ls i = None"
| "growBranches (Suc fuel) ls i =
     (let grown = map (growBranches fuel ls) (findChildren ls i)
      in if None \<in> set grown then None else Some (Node i (map the grown)))"

definition buildTreeWithID :: "nat \<Rightarrow> links \<Rightarrow> string \<Rightarrow> Node option" where
  "buildTreeWithID fuel ls r = growBranches fuel ls r"

definition BuildTree :: "nat \<Rightarrow> links \<Rightarrow> err + Node option" where
  "BuildTree fuel ls =
     (case root ls of Inl e \<Rightarrow> Inl e | Inr r \<Rightarrow> Inr (buildTreeWithID fuel ls r))"

text \<open>\<open>Node.chains\<close> appends to \<open>out.Chains\<close>, which the model threads through.\<close>

fun Node_chains :: "Node \<Rightarrow> string list \<Rightarrow> ChainList \<Rightarrow> ChainList" where
  "Node_chains (Node i cs) current out =
     (if cs = [] then out @ [current @ [i]]
      else fold (\<lambda>child acc. Node_chains child (current @ [i]) acc) cs out)"

definition Node_Chains :: "Node \<Rightarrow> ChainList" where
  "Node_Chains n = Node_chains n [] []"

text \<open>A fork recorded in the order 2a, 3b, 3a.\<close>

definition fork_links :: links where
  "fork_links =
     [(''00000002a'', ''00000001a''), (''00000003b'', ''00000002a''),
      (''00000003a'', ''00000002a'')]"


section \<open>Cursor wire format\<close>

text \<open>
  Modelled from the spec: cursor.go is not among the source files. Section 6 of the
  specification gives the text form \<open>c1:<step>:<block_num>:<block_id>:<lib_num>:<lib_id>\<close>
  and an extended \<open>c3\<close> form that includes the head block, with the steps written as
  the numbers 1, 2, 4, 16 and 32. The \<open>c1\<close> form has no head block, so it is the form
  of a cursor whose head block is its block; the layout of the \<open>c3\<close> form after its tag
  is not given by the specification and is a parameter.
\<close>

fun StepType_code :: "StepType \<Rightarrow> nat" where
  "StepType_code StepNew = 1"
| "StepType_code StepUndo = 2"
| "StepType_code StepRedo = 4"
| "StepType_code StepIrreversible = 16"
| "StepType_code StepStalled = 32"

definition digit :: "nat \<Rightarrow> char" where
  "digit n = ''0123456789'' ! n"

text \<open>Decimal text of a number (\<open>%d\<close>).\<close>

function decimal :: "nat \<Rightarrow> string" where
  "decimal n = (if n < 10 then [digit n] else decimal (n div 10) @ [digit (n mod 10)])"
  by pat_completeness auto
termination
  by (relation "measure id") auto

declare decimal.simps [simp del]

definition Cursor_String :: "(Cursor \<Rightarrow> string) \<Rightarrow> Cursor \<Rightarrow> string" where
  "Cursor_String c3_fields c =
     (if ID (HeadBlock c) = ID (Block c)
      then ''c1:'' @ decimal (StepType_code (Step c)) @ '':'' @
           decimal (unat (Num (Block c))) @ '':'' @ ID (Block c) @ '':'' @
           decimal (unat (Num (LIB c))) @ '':'' @ ID (LIB c)
      else ''c3:'' @ c3_fields c)"



section \<open>Properties\<close>

subsection \<open>Block.PreviousRef\<close>

text \<open>
  C10. \<open>Block.PreviousRef\<close> is total. It returns \<open>BlockRefEmpty\<close> when the receiver is
  nil, when the block's number is 0 or when its previous id is empty. In every other
  case the reference has the previous id as its id and the block's number less one as
  its height, whatever the height of the parent block really is; the subtraction does
  not wrap, since the number is not 0.
\<close>

theorem PreviousRef_total:
  "PreviousRef None = BlockRefEmpty \<and>
   PreviousRef (Some blk) =
     (if Number blk = 0 \<or> PreviousId blk = [] then BlockRefEmpty
      else \<lparr>ID = PreviousId blk, Num = Number blk - 1\<rparr>) \<and>
   (if Number blk = 0 \<or> PreviousId blk = [] then True
    else ID (PreviousRef (Some blk)) = PreviousId blk \<and>
         unat (Num (PreviousRef (Some blk))) + 1 = unat (Number blk))"
proof -
  have "unat (Number blk - 1) + 1 = unat (Number blk)" if "Number blk \<noteq> 0"
  proof -
    from that have "0 < unat (Number blk)" by (simp add: unat_gt_0)
    with that show ?thesis by (simp add: unat_minus_one)
  qed
  then show ?thesis
    by (simp add: PreviousRef_def NewBlockRef_def)
qed

theorem PreviousRef_total_witness:
  "PreviousRef (Some \<lparr>Id' = ''00000005a'', Number = 5, PreviousId = ''00000003a'', LibNum = 2\<rparr>)
     = \<lparr>ID = ''00000003a'', Num = 4\<rparr> \<and>
   PreviousRef (Some \<lparr>Id' = ''00000000a'', Number = 0, PreviousId = ''x'', LibNum = 0\<rparr>)
     = BlockRefEmpty"
  using PreviousRef_total [of "\<lparr>Id' = ''00000005a'', Number = 5, PreviousId = ''00000003a'', LibNum = 2\<rparr>"]
        PreviousRef_total [of "\<lparr>Id' = ''00000000a'', Number = 0, PreviousId = ''x'', LibNum = 0\<rparr>"]
  by simp


subsection \<open>The stop block of the Firehose handler\<close>

text \<open>
  C7 as stated fails when the inner handler itself returns an error for the stop block:
  the wrapped handler returns that error, not the sentinel. Here the stop block is 5
  and the inner handler refuses every block.
\<close>

theorem wrappedHandler_stop_block_counterexample:
  "stopBlockNum
     \<lparr>FirstStreamableBlock = 0, startBlockNum = 0, stopBlockNum = 5,
        hasIrreversibleBlocksIndexStore = False,
        handler = (\<lambda>b (ob::unit) (s::unit). (Some (ErrOther ''refused''), s)),
        cursor = None, tracker = (None :: unit option)\<rparr> > 0 \<and>
   wrappedHandler
     \<lparr>FirstStreamableBlock = 0, startBlockNum = 0, stopBlockNum = 5,
        hasIrreversibleBlocksIndexStore = False,
        handler = (\<lambda>b (ob::unit) (s::unit). (Some (ErrOther ''refused''), s)),
        cursor = None, tracker = (None :: unit option)\<rparr>
     \<lparr>Id' = ''00000005a'', Number = 5, PreviousId = ''00000004a'', LibNum = 0\<rparr> () ()
   = (Some (ErrOther ''refused''), ()) \<and>
   Some (ErrOther ''refused'') \<noteq> Some ErrStopBlockReached"
  by (simp add: wrappedHandler_def)

text \<open>
  C7, amended. With a stop block \<open>S > 0\<close>: a block above \<open>S\<close> gets the sentinel
  \<open>ErrStopBlockReached\<close> whatever the inner handler is and with the handler state
  untouched, so the block is not forwarded; the block \<open>S\<close> itself is forwarded first,
  and the sentinel is returned when the inner handler accepted it, the inner handler's
  own error otherwise; a block below \<open>S\<close> is handled by the inner handler alone.
  The sentinel is a value of its own, distinct from every other error.
\<close>

theorem wrappedHandler_stop_block:
  assumes "0 < stopBlockNum f"
  shows "(stopBlockNum f < Number blk \<longrightarrow>
            wrappedHandler (f\<lparr>handler := h\<rparr>) blk obj s = (Some ErrStopBlockReached, s)) \<and>
         (Number blk = stopBlockNum f \<longrightarrow>
            wrappedHandler (f\<lparr>handler := h\<rparr>) blk obj s =
              (case h blk obj s of
                 (None, s') \<Rightarrow> (Some ErrStopBlockReached, s')
               | (Some e, s') \<Rightarrow> (Some e, s'))) \<and>
         (Number blk < stopBlockNum f \<longrightarrow>
            wrappedHandler (f\<lparr>handler := h\<rparr>) blk obj s = h blk obj s)"
  using assms
  by (auto simp: wrappedHandler_def split: prod.splits option.splits)

theorem wrappedHandler_stop_block_witness:
  "wrappedHandler
     \<lparr>FirstStreamableBlock = 0, startBlockNum = 0, stopBlockNum = 5,
        hasIrreversibleBlocksIndexStore = False,
        handler = (\<lambda>b (ob::unit) (s::nat). (None, Suc s)),
        cursor = None, tracker = (None :: unit option)\<rparr>
     \<lparr>Id' = ''00000006a'', Number = 6, PreviousId = ''00000005a'', LibNum = 0\<rparr> () 0
   = (Some ErrStopBlockReached, 0) \<and>
   wrappedHandler
     \<lparr>FirstStreamableBlock = 0, startBlockNum = 0, stopBlockNum = 5,
        hasIrreversibleBlocksIndexStore = False,
        handler = (\<lambda>b (ob::unit) (s::nat). (None, Suc s)),
        cursor = None, tracker = (None :: unit option)\<rparr>
     \<lparr>Id' = ''00000005a'', Number = 5, PreviousId = ''00000004a'', LibNum = 0\<rparr> () 0
   = (Some ErrStopBlockReached, 1)"
  using wrappedHandler_stop_block
          [of "\<lparr>FirstStreamableBlock = 0, startBlockNum = 0, stopBlockNum = 5,
                hasIrreversibleBlocksIndexStore = False,
                handler = (\<lambda>b (ob::unit) (s::nat). (None, Suc s)),
                cursor = None, tracker = (None :: unit option)\<rparr>"
              "\<lparr>Id' = ''00000006a'', Number = 6, PreviousId = ''00000005a'', LibNum = 0\<rparr>"
              "\<lambda>b (ob::unit) (s::nat). (None, Suc s)" "()" 0]
        wrappedHandler_stop_block
          [of "\<lparr>FirstStreamableBlock = 0, startBlockNum = 0, stopBlockNum = 5,
                hasIrreversibleBlocksIndexStore = False,
                handler = (\<lambda>b (ob::unit) (s::nat). (None, Suc s)),
                cursor = None, tracker = (None :: unit option)\<rparr>"
              "\<lparr>Id' = ''00000005a'', Number = 5, PreviousId = ''00000004a'', LibNum = 0\<rparr>"
              "\<lambda>b (ob::unit) (s::nat). (None, Suc s)" "()" 0]
  by simp


subsection \<open>Invalid arguments at stream construction\<close>

lemma createSource_resolved:
  assumes Inr: "resolveNegativeStartBlockNum c (startBlockNum f) (tracker f) = Inr resolved"
  shows "isInvalidArg (createSource c f) \<longleftrightarrow>
           (0 < stopBlockNum f \<and> stopBlockNum f < max resolved (FirstStreamableBlock f))"
proof -
  have m: "max resolved (FirstStreamableBlock f) =
             (if resolved < FirstStreamableBlock f then FirstStreamableBlock f else resolved)"
    by (auto simp: max_def)
  show ?thesis
  proof (cases "0 < stopBlockNum f \<and> stopBlockNum f < max resolved (FirstStreamableBlock f)")
    case True
    then show ?thesis using Inr
      by (simp add: createSource_def isInvalidArg_def Let_def m)
  next
    case False
    have "\<not> isInvalidArg (createSource c f)"
    proof (cases "IsEmpty c (cursor f)")
      case noCursor: True
      show ?thesis
      proof (cases "tracker f")
        case None
        then show ?thesis using Inr False noCursor
          by (simp add: createSource_def isInvalidArg_def Let_def m)
      next
        case (Some trk)
        then show ?thesis using Inr False noCursor
          by (simp add: createSource_def isInvalidArg_def Let_def m split: sum.split prod.split)
      qed
    next
      case hasCursor: False
      show ?thesis
      proof (cases "cursor f")
        case None
        then show ?thesis using Inr False hasCursor
          by (simp add: createSource_def isInvalidArg_def Let_def m)
      next
        case (Some cur)
        then show ?thesis using Inr False hasCursor
          by (simp add: createSource_def isInvalidArg_def Let_def m)
      qed
    qed
    with False show ?thesis by simp
  qed
qed

text \<open>
  C8. \<open>createSource\<close> returns an invalid-argument error in exactly two cases: the start
  block is negative and the tracker answers that no HEAD getter is defined, or the start
  block was resolved and, once raised to the first streamable block, lies above a stop
  block that is not 0. The function has no loop, so nothing is retried, and an
  invalid-argument result is an error: no source comes with it.
\<close>

theorem createSource_invalid_arg:
  "(isInvalidArg (createSource c f) \<longleftrightarrow>
      (sint (startBlockNum f) < 0 \<and>
       (\<exists>e. GetRelativeBlock c (tracker f) (startBlockNum f) = Inl e \<and>
            errors_Is e ErrGetterUndefined)) \<or>
      (\<exists>resolved.
          resolveNegativeStartBlockNum c (startBlockNum f) (tracker f) = Inr resolved \<and>
          0 < stopBlockNum f \<and>
          stopBlockNum f < max resolved (FirstStreamableBlock f))) \<and>
   (isInvalidArg (createSource c f) \<longrightarrow> (\<forall>src. createSource c f \<noteq> Inr src))"
proof -
  have no_src: "isInvalidArg r \<Longrightarrow> r \<noteq> Inr src" for r src
    by (auto simp: isInvalidArg_def)
  have main: "isInvalidArg (createSource c f) \<longleftrightarrow>
      (sint (startBlockNum f) < 0 \<and>
       (\<exists>e. GetRelativeBlock c (tracker f) (startBlockNum f) = Inl e \<and>
            errors_Is e ErrGetterUndefined)) \<or>
      (\<exists>resolved.
          resolveNegativeStartBlockNum c (startBlockNum f) (tracker f) = Inr resolved \<and>
          0 < stopBlockNum f \<and>
          stopBlockNum f < max resolved (FirstStreamableBlock f))"
  proof (cases "resolveNegativeStartBlockNum c (startBlockNum f) (tracker f)")
    case (Inl e)
    then show ?thesis
      by (auto simp: createSource_def isInvalidArg_def resolveNegativeStartBlockNum_def
               split: if_splits sum.splits)
  next
    case (Inr resolved)
    define P where "P \<longleftrightarrow> (sint (startBlockNum f) < 0 \<and>
       (\<exists>e. GetRelativeBlock c (tracker f) (startBlockNum f) = Inl e \<and>
            errors_Is e ErrGetterUndefined))"
    define Q where "Q \<longleftrightarrow> (\<exists>resolved.
          resolveNegativeStartBlockNum c (startBlockNum f) (tracker f) = Inr resolved \<and>
          0 < stopBlockNum f \<and>
          stopBlockNum f < max resolved (FirstStreamableBlock f))"
    define R where "R \<longleftrightarrow>
          (0 < stopBlockNum f \<and> stopBlockNum f < max resolved (FirstStreamableBlock f))"
    have nP: "\<not> P"
      unfolding P_def using Inr
      by (auto simp: resolveNegativeStartBlockNum_def split: if_splits sum.splits)
    have QR: "Q \<longleftrightarrow> R"
      unfolding Q_def R_def using Inr by auto
    have IR: "isInvalidArg (createSource c f) \<longleftrightarrow> R"
      unfolding R_def by (rule createSource_resolved [OF Inr])
    have "isInvalidArg (createSource c f) \<longleftrightarrow> P \<or> Q"
      using nP QR IR by blast
    then show ?thesis unfolding P_def Q_def .
  qed
  show ?thesis using main no_src by blast
qed

theorem createSource_invalid_arg_witness:
  "isInvalidArg
     (createSource
        \<lparr>GetRelativeBlock = (\<lambda>(t::unit option) n. Inl ErrGetterUndefined),
           ResolveStartBlock = (\<lambda>t n. Inr (n, [])),
           IsEmpty = (\<lambda>cur. cur = None),
           NewBlockIndexesManager = (\<lambda>a b cb. False)\<rparr>
        \<lparr>FirstStreamableBlock = 1, startBlockNum = - 1, stopBlockNum = 0,
           hasIrreversibleBlocksIndexStore = False,
           handler = (\<lambda>b (ob::unit) (s::unit). (None, s)),
           cursor = None, tracker = None\<rparr>) \<and>
   isInvalidArg
     (createSource
        \<lparr>GetRelativeBlock = (\<lambda>(t::unit option) n. Inl ErrGetterUndefined),
           ResolveStartBlock = (\<lambda>t n. Inr (n, [])),
           IsEmpty = (\<lambda>cur. cur = None),
           NewBlockIndexesManager = (\<lambda>a b cb. False)\<rparr>
        \<lparr>FirstStreamableBlock = 1, startBlockNum = 10, stopBlockNum = 5,
           hasIrreversibleBlocksIndexStore = False,
           handler = (\<lambda>b (ob::unit) (s::unit). (None, s)),
           cursor = None, tracker = None\<rparr>) \<and>
   \<not> isInvalidArg
     (createSource
        \<lparr>GetRelativeBlock = (\<lambda>(t::unit option) n. Inl ErrGetterUndefined),
           ResolveStartBlock = (\<lambda>t n. Inr (n, [])),
           IsEmpty = (\<lambda>cur. cur = None),
           NewBlockIndexesManager = (\<lambda>a b cb. False)\<rparr>
        \<lparr>FirstStreamableBlock = 1, startBlockNum = 3, stopBlockNum = 5,
           hasIrreversibleBlocksIndexStore = False,
           handler = (\<lambda>b (ob::unit) (s::unit). (None, s)),
           cursor = None, tracker = None\<rparr>)"
  using createSource_invalid_arg
          [of "\<lparr>GetRelativeBlock = (\<lambda>(t::unit option) n. Inl ErrGetterUndefined),
                 ResolveStartBlock = (\<lambda>t n. Inr (n, [])),
                 IsEmpty = (\<lambda>cur. cur = None),
                 NewBlockIndexesManager = (\<lambda>a b cb. False)\<rparr>"
              "\<lparr>FirstStreamableBlock = 1, startBlockNum = - 1, stopBlockNum = 0,
                 hasIrreversibleBlocksIndexStore = False,
                 handler = (\<lambda>b (ob::unit) (s::unit). (None, s)),
                 cursor = None, tracker = None\<rparr>"]
        createSource_invalid_arg
          [of "\<lparr>GetRelativeBlock = (\<lambda>(t::unit option) n. Inl ErrGetterUndefined),
                 ResolveStartBlock = (\<lambda>t n. Inr (n, [])),
                 IsEmpty = (\<lambda>cur. cur = None),
                 NewBlockIndexesManager = (\<lambda>a b cb. False)\<rparr>"
              "\<lparr>FirstStreamableBlock = 1, startBlockNum = 10, stopBlockNum = 5,
                 hasIrreversibleBlocksIndexStore = False,
                 handler = (\<lambda>b (ob::unit) (s::unit). (None, s)),
                 cursor = None, tracker = None\<rparr>"]
        createSource_invalid_arg
          [of "\<lparr>GetRelativeBlock = (\<lambda>(t::unit option) n. Inl ErrGetterUndefined),
                 ResolveStartBlock = (\<lambda>t n. Inr (n, [])),
                 IsEmpty = (\<lambda>cur. cur = None),
                 NewBlockIndexesManager = (\<lambda>a b cb. False)\<rparr>"
              "\<lparr>FirstStreamableBlock = 1, startBlockNum = 3, stopBlockNum = 5,
                 hasIrreversibleBlocksIndexStore = False,
                 handler = (\<lambda>b (ob::unit) (s::unit). (None, s)),
                 cursor = None, tracker = None\<rparr>"]
  by (simp add: resolveNegativeStartBlockNum_def)


subsection \<open>The longest chain of the block tree\<close>

lemma LongestChain_inv_step:
  assumes "LongestChain_inv cl n lid llen"
  shows "LongestChain_inv cl (Suc n)
           (if length (cl ! n) > llen then int n else lid)
           (if length (cl ! n) > llen then length (cl ! n) else llen)"
proof (cases "length (cl ! n) > llen")
  case True
  from assms have le: "\<forall>j<n. length (cl ! j) \<le> llen"
    by (auto simp: LongestChain_inv_def)
  have "\<forall>j<Suc n. length (cl ! j) \<le> length (cl ! n)"
    using le True by (auto simp: less_Suc_eq intro: less_imp_le le_less_trans)
  moreover have "\<forall>j<n. length (cl ! j) < length (cl ! n)"
    using le True by (auto intro: le_less_trans)
  moreover have "0 < length (cl ! n)" using True by (cases "cl ! n") auto
  ultimately show ?thesis using True unfolding LongestChain_inv_def by simp
next
  case False
  then show ?thesis using assms
    by (auto simp: LongestChain_inv_def less_Suc_eq)
qed

lemma LongestChain_loop_inv:
  "n \<le> length cl \<Longrightarrow> LongestChain_inv cl n lid llen \<Longrightarrow>
   LongestChain_loop (drop n cl) n lid llen = (lid', llen') \<Longrightarrow>
   LongestChain_inv cl (length cl) lid' llen'"
proof (induction "length cl - n" arbitrary: n lid llen)
  case 0
  then show ?case by simp
next
  case (Suc d)
  then have lt: "n < length cl" by simp
  then have dr: "drop n cl = cl ! n # drop (Suc n) cl"
    by (simp add: Cons_nth_drop_Suc)
  let ?lid = "if length (cl ! n) > llen then int n else lid"
  let ?len = "if length (cl ! n) > llen then length (cl ! n) else llen"
  have run: "LongestChain_loop (drop (Suc n) cl) (Suc n) ?lid ?len = (lid', llen')"
    using Suc.prems(3) dr by (simp split: if_splits)
  have "LongestChain_inv cl (Suc n) ?lid ?len"
    by (rule LongestChain_inv_step [OF Suc.prems(2)])
  moreover have "d = length cl - Suc n" using Suc.hyps(2) by simp
  moreover have "Suc n \<le> length cl" using lt by simp
  ultimately show ?case using Suc.hyps(1) run by blast
qed

lemma LongestChain_first_longest:
  assumes ne: "cl \<noteq> []" and nonempty: "\<forall>c\<in>set cl. c \<noteq> []"
  shows "\<exists>i<length cl. LongestChain cl = Inr (cl ! i) \<and>
           (\<forall>j<length cl. length (cl ! j) \<le> length (cl ! i)) \<and>
           (\<forall>j<i. length (cl ! j) < length (cl ! i))"
proof -
  obtain lid llen where run: "LongestChain_loop cl 0 (- 1) 0 = (lid, llen)"
    by (cases "LongestChain_loop cl 0 (- 1) 0") auto
  have "LongestChain_inv cl 0 (- 1) 0" by (simp add: LongestChain_inv_def)
  with run have b: "LongestChain_inv cl (length cl) lid llen"
    using LongestChain_loop_inv [of 0 cl "- 1" 0 lid llen] by simp
  have "length (cl ! 0) \<noteq> 0" using ne nonempty by (cases cl) auto
  with ne have "\<not> (\<forall>j<length cl. length (cl ! j) = 0)" by (cases cl) auto
  with b have good: "0 \<le> lid" "nat lid < length cl" "length (cl ! nat lid) = llen"
    "\<forall>j<length cl. length (cl ! j) \<le> llen" "\<forall>j<nat lid. length (cl ! j) < llen"
    by (auto simp: LongestChain_inv_def)
  have "LongestChain cl = Inr (cl ! nat lid)"
    using run good ne by (simp add: LongestChain_def)
  with good show ?thesis by blast
qed

lemma fold_appends:
  assumes "\<And>ch acc. ch \<in> set cs \<Longrightarrow> f ch acc = acc @ g ch"
  shows "fold f cs out = out @ concat (map g cs)"
  using assms by (induction cs arbitrary: out) auto

lemma Node_chains_append:
  "Node_chains n cur out = out @ Node_chains n cur []"
proof (induction n arbitrary: cur out)
  case (Node i cs)
  show ?case
  proof (cases "cs = []")
    case True
    then show ?thesis by simp
  next
    case False
    have step: "\<And>ch acc. ch \<in> set cs \<Longrightarrow>
        Node_chains ch (cur @ [i]) acc = acc @ Node_chains ch (cur @ [i]) []"
      using Node.IH by blast
    have "fold (\<lambda>child acc. Node_chains child (cur @ [i]) acc) cs out =
          out @ concat (map (\<lambda>ch. Node_chains ch (cur @ [i]) []) cs)"
      by (rule fold_appends) (rule step)
    moreover have "fold (\<lambda>child acc. Node_chains child (cur @ [i]) acc) cs [] =
          [] @ concat (map (\<lambda>ch. Node_chains ch (cur @ [i]) []) cs)"
      by (rule fold_appends) (rule step)
    ultimately show ?thesis using False by simp
  qed
qed

lemma Node_chains_unfold:
  "Node_chains (Node i cs) cur [] =
     (if cs = [] then [cur @ [i]]
      else concat (map (\<lambda>ch. Node_chains ch (cur @ [i]) []) cs))"
proof (cases "cs = []")
  case True
  then show ?thesis by simp
next
  case False
  have "fold (\<lambda>child acc. Node_chains child (cur @ [i]) acc) cs [] =
          [] @ concat (map (\<lambda>ch. Node_chains ch (cur @ [i]) []) cs)"
    by (rule fold_appends) (rule Node_chains_append)
  then show ?thesis using False by simp
qed

lemma Node_chains_nonempty:
  "Node_chains n cur [] \<noteq> [] \<and> (\<forall>c\<in>set (Node_chains n cur []). c \<noteq> [])"
proof (induction n arbitrary: cur)
  case (Node i cs)
  show ?case
  proof (cases cs)
    case Nil
    then show ?thesis by simp
  next
    case (Cons a as)
    then have "a \<in> set cs" by simp
    with Node.IH have "Node_chains a (cur @ [i]) [] \<noteq> []" by blast
    moreover have "\<forall>ch\<in>set cs. \<forall>c\<in>set (Node_chains ch (cur @ [i]) []). c \<noteq> []"
      using Node.IH by blast
    ultimately show ?thesis
      unfolding Node_chains_unfold using Cons by auto
  qed
qed

lemma findChildren_sorted_set:
  "sorted (findChildren ls p) \<and> set (findChildren ls p) = {i. (i, p) \<in> set ls}"
  by (force simp: findChildren_def)

lemma findChildren_order_independent:
  assumes "distinct (map fst l1)" "distinct (map fst l2)" "set l1 = set l2"
  shows "findChildren l1 p = findChildren l2 p"
proof -
  have d: "distinct (map fst l) \<Longrightarrow> distinct (findChildren l p)" for l
    by (simp add: findChildren_def distinct_map_filter)
  have "set (findChildren l1 p) = set (findChildren l2 p)"
    using assms(3) by (simp add: findChildren_sorted_set)
  then show ?thesis
    using d [OF assms(1)] d [OF assms(2)] findChildren_sorted_set
    by (metis sorted_distinct_set_unique)
qed

text \<open>
  C5 as stated fails: the links do not keep the order in which blocks were seen, and
  the children of a block are sorted by id. With the fork 3b, 3a under 2a recorded in
  that order (3b seen first), the tree lists the chain through 3a first and
  \<open>LongestChain\<close> returns it, although both chains have length 2.
\<close>

theorem LongestChain_first_seen_counterexample:
  "map fst fork_links = [''00000002a'', ''00000003b'', ''00000003a''] \<and>
   BuildTree 3 fork_links =
     Inr (Some (Node ''00000002a'' [Node ''00000003a'' [], Node ''00000003b'' []])) \<and>
   Node_Chains (Node ''00000002a'' [Node ''00000003a'' [], Node ''00000003b'' []]) =
     [[''00000002a'', ''00000003a''], [''00000002a'', ''00000003b'']] \<and>
   LongestChain [[''00000002a'', ''00000003a''], [''00000002a'', ''00000003b'']] =
     Inr [''00000002a'', ''00000003a'']"
  by (simp add: fork_links_def BuildTree_def buildTreeWithID_def root_def roots_def
        findChildren_def Node_Chains_def LongestChain_def numeral_nat)

text \<open>
  C5, amended. For the chains of any tree, \<open>LongestChain\<close> returns a chain of maximal
  length and, among the chains of that length, the first one in the list of chains (every
  chain before it is strictly shorter). The order of that list is fixed by the ids, not
  by the order of arrival: \<open>findChildren\<close> returns the children of a block in ascending
  order of their ids, whatever the order in which the links were recorded.
\<close>

theorem LongestChain_first_in_id_order:
  "(\<exists>i<length (Node_Chains n).
       LongestChain (Node_Chains n) = Inr (Node_Chains n ! i) \<and>
       (\<forall>j<length (Node_Chains n). length (Node_Chains n ! j) \<le> length (Node_Chains n ! i)) \<and>
       (\<forall>j<i. length (Node_Chains n ! j) < length (Node_Chains n ! i))) \<and>
   sorted (findChildren ls p) \<and>
   set (findChildren ls p) = {i. (i, p) \<in> set ls} \<and>
   (distinct (map fst l1) \<and> distinct (map fst l2) \<and> set l1 = set l2 \<longrightarrow>
      findChildren l1 p = findChildren l2 p)"
proof -
  have "Node_Chains n \<noteq> []" "\<forall>c\<in>set (Node_Chains n). c \<noteq> []"
    using Node_chains_nonempty [of n "[]"] by (simp_all add: Node_Chains_def)
  then have "\<exists>i<length (Node_Chains n).
       LongestChain (Node_Chains n) = Inr (Node_Chains n ! i) \<and>
       (\<forall>j<length (Node_Chains n). length (Node_Chains n ! j) \<le> length (Node_Chains n ! i)) \<and>
       (\<forall>j<i. length (Node_Chains n ! j) < length (Node_Chains n ! i))"
    by (rule LongestChain_first_longest)
  then show ?thesis
    using findChildren_sorted_set [of ls p] findChildren_order_independent [of l1 l2 p]
    by blast
qed

theorem LongestChain_first_in_id_order_witness:
  "distinct (map fst fork_links) \<and> distinct (map fst (rev fork_links)) \<and>
   set fork_links = set (rev fork_links) \<and>
   findChildren fork_links ''00000002a'' = findChildren (rev fork_links) ''00000002a'' \<and>
   LongestChain (Node_Chains (Node ''00000002a'' [Node ''00000003a'' [], Node ''00000003b'' []])) =
     Inr [''00000002a'', ''00000003a'']"
proof -
  let ?T = "Node ''00000002a'' [Node ''00000003a'' [], Node ''00000003b'' []]"
  note inst = LongestChain_first_in_id_order
               [of ?T fork_links "''00000002a''" fork_links "rev fork_links"]
  have d1: "distinct (map fst fork_links) \<and> distinct (map fst (rev fork_links))"
    by (simp add: fork_links_def)
  have d2: "set fork_links = set (rev fork_links)"
    by (rule set_rev [symmetric])
  note d = conjI [OF d1 d2, unfolded conj_assoc]
  have cs: "Node_Chains ?T = [[''00000002a'', ''00000003a''], [''00000002a'', ''00000003b'']]"
    by (simp add: Node_Chains_def)
  from inst obtain i where i: "i < length (Node_Chains ?T)"
      "LongestChain (Node_Chains ?T) = Inr (Node_Chains ?T ! i)"
      "\<forall>j<i. length (Node_Chains ?T ! j) < length (Node_Chains ?T ! i)"
    by blast
  have "i = 0"
  proof (rule ccontr)
    assume "i \<noteq> 0"
    with i(1) have "i = 1" by (simp add: cs)
    with i(3) [rule_format, of 0] show False by (simp add: cs)
  qed
  with i(2) have "LongestChain (Node_Chains ?T) = Inr [''00000002a'', ''00000003a'']"
    by (simp add: cs)
  moreover from inst d
  have "findChildren fork_links ''00000002a'' = findChildren (rev fork_links) ''00000002a''"
    by blast
  ultimately show ?thesis using d by blast
qed


subsection \<open>The text form of a cursor\<close>

text \<open>
  C9. A cursor whose head block is its block is written
  \<open>c1:<step>:<block_num>:<block_id>:<lib_num>:<lib_id>\<close>, the step as the single
  number 1 (new), 2 (undo), 4 (redo), 16 (irreversible) or 32 (stalled) and the block
  numbers in decimal. The cursor of New for block 1 with id 00000001a and LIB 00000001a
  is \<open>c1:1:1:00000001a:1:00000001a\<close>, the one of Irreversible for the same block
  \<open>c1:16:1:00000001a:1:00000001a\<close>.
\<close>

theorem Cursor_String_c1:
  "(ID (HeadBlock c) = ID (Block c) \<longrightarrow>
      Cursor_String ext c =
        ''c1:'' @ decimal (StepType_code (Step c)) @ '':'' @
        decimal (unat (Num (Block c))) @ '':'' @ ID (Block c) @ '':'' @
        decimal (unat (Num (LIB c))) @ '':'' @ ID (LIB c)) \<and>
   map StepType_code [StepNew, StepUndo, StepRedo, StepIrreversible, StepStalled] =
     [1, 2, 4, 16, 32] \<and>
   Cursor_String ext
     \<lparr>Step = StepNew, Block = NewBlockRef ''00000001a'' 1,
        HeadBlock = NewBlockRef ''00000001a'' 1, LIB = NewBlockRef ''00000001a'' 1\<rparr>
     = ''c1:1:1:00000001a:1:00000001a'' \<and>
   Cursor_String ext
     \<lparr>Step = StepIrreversible, Block = NewBlockRef ''00000001a'' 1,
        HeadBlock = NewBlockRef ''00000001a'' 1, LIB = NewBlockRef ''00000001a'' 1\<rparr>
     = ''c1:16:1:00000001a:1:00000001a''"
  by (simp add: Cursor_String_def NewBlockRef_def decimal.simps digit_def)

theorem Cursor_String_c1_witness:
  "Cursor_String (\<lambda>c. [])
     \<lparr>Step = StepStalled, Block = NewBlockRef ''0000000cb'' 12,
        HeadBlock = NewBlockRef ''0000000cb'' 12, LIB = NewBlockRef ''0000000aa'' 10\<rparr>
     = ''c1:32:12:0000000cb:10:0000000aa''"
  using Cursor_String_c1
          [of "\<lparr>Step = StepStalled, Block = NewBlockRef ''0000000cb'' 12,
                HeadBlock = NewBlockRef ''0000000cb'' 12, LIB = NewBlockRef ''0000000aa'' 10\<rparr>"
              "\<lambda>c. []"]
  by (simp add: NewBlockRef_def decimal.simps digit_def)

end
